theory Spec2Isabelle
  imports Main "HOL-Library.AList" "HOL-Library.Multiset"
begin

section \<open>JavaScript values\<close>

text \<open>
  The values that travel between the routes of \<^verbatim>\<open>src/server/routes/admin.js\<close> and the
  page \<^verbatim>\<open>src/client/src/pages/AdminRequests.jsx\<close> are JSON values: \<^verbatim>\<open>null\<close>, booleans,
  numbers (the integer-valued ones), strings, arrays and objects. An object is an
  association list in the order \<^verbatim>\<open>Object.entries\<close> and \<^verbatim>\<open>Object.assign\<close> walk, which is
  insertion order for keys that are not array indices. A property read can also give
  \<^verbatim>\<open>undefined\<close>, or a built-in of the runtime that the value inherits through its
  prototype chain (\<^verbatim>\<open>"abc"["toString"]\<close> is a function). Of a built-in the page can only
  observe that it is truthy, what \<^verbatim>\<open>JSON.stringify\<close> makes of it (\<^verbatim>\<open>undefined\<close> for a
  function) and what \<^verbatim>\<open>String\<close> makes of it: \<open>JNative\<close> carries its name and these two.
\<close>

datatype jsval =
    JUndefined
  | JNull
  | JBool bool
  | JNum int
  | JStr string
  | JArr "jsval list"
  | JObj "(string \<times> jsval) list"
  | JNative string "string option" string

type_synonym jsobj = "(string \<times> jsval) list"



text \<open>Truthiness, as \<^verbatim>\<open>x ? a : b\<close> and \<^verbatim>\<open>x || y\<close> test it.\<close>

fun truthy :: "jsval \<Rightarrow> bool" where
  "truthy JUndefined = False"
| "truthy JNull = False"
| "truthy (JBool b) = b"
| "truthy (JNum n) = (n \<noteq> 0)"
| "truthy (JStr s) = (s \<noteq> [])"
| "truthy (JArr vs) = True"
| "truthy (JObj obj) = True"
| "truthy (JNative name json text) = True"

definition js_or :: "jsval \<Rightarrow> jsval \<Rightarrow> jsval" where
  "js_or a b = (if truthy a then a else b)"

text \<open>
  \<^verbatim>\<open>typeof v === 'object' && v !== null\<close>, which an array passes too. The page asks it
  of proposed values only, and a proposed value is never a built-in.
\<close>

fun is_object :: "jsval \<Rightarrow> bool" where
  "is_object (JObj obj) = True"
| "is_object (JArr vs) = True"
| "is_object _ = False"

text \<open>
  \<^verbatim>\<open>a === b\<close>. Two objects or arrays are equal only when they are the same reference;
  the old and the new value of a field are different nodes of the parsed response, so
  an object or array is never \<^verbatim>\<open>===\<close> to the other side. A built-in is the same
  reference exactly when it is the same built-in.
\<close>

fun strict_eq :: "jsval \<Rightarrow> jsval \<Rightarrow> bool" where
  "strict_eq (JObj a) _ = False"
| "strict_eq (JArr a) _ = False"
| "strict_eq _ (JObj b) = False"
| "strict_eq _ (JArr b) = False"
| "strict_eq a b = (a = b)"

subsection \<open>Conversion to strings\<close>

definition digit_char :: "nat \<Rightarrow> char" where
  "digit_char d = (''0123456789abcdef'' ! (d mod 16))"

text \<open>
  \<^verbatim>\<open>Number.prototype.toString\<close> for an integer: its decimal digits, with a minus sign
  below zero (the exponent form of very large numbers is not reached by a field's value).
\<close>

fun decimal_digits :: "nat \<Rightarrow> string \<Rightarrow> string" where
  "decimal_digits n acc =
     (if n < 10 then digit_char n # acc
      else decimal_digits (n div 10) (digit_char (n mod 10) # acc))"

definition Number_toString :: "int \<Rightarrow> string" where
  "Number_toString i =
     (if 0 \<le> i then decimal_digits (nat i) [] else CHR ''-'' # decimal_digits (nat (- i)) [])"

fun join :: "string \<Rightarrow> string list \<Rightarrow> string" where
  "join sep [] = []"
| "join sep [x] = x"
| "join sep (x # y # ys) = x @ sep @ join sep (y # ys)"

text \<open>
  \<^verbatim>\<open>String(v)\<close>. An array gives its elements joined by commas, with nothing for
  \<^verbatim>\<open>null\<close> and \<^verbatim>\<open>undefined\<close>.
\<close>

fun js_String :: "jsval \<Rightarrow> string" where
  "js_String JUndefined = ''undefined''"
| "js_String JNull = ''null''"
| "js_String (JBool b) = (if b then ''true'' else ''false'')"
| "js_String (JNum n) = Number_toString n"
| "js_String (JStr s) = s"
| "js_String (JArr vs) =
     join '','' (map (\<lambda>v. if v = JNull \<or> v = JUndefined then [] else js_String v) vs)"
| "js_String (JObj obj) = ''[object Object]''"
| "js_String (JNative name json text) = text"

text \<open>
  \<^verbatim>\<open>JSON.stringify(v)\<close>: \<^verbatim>\<open>undefined\<close> for \<^verbatim>\<open>undefined\<close> and for a function (here \<open>None\<close>),
  otherwise the JSON text. A string is quoted, with the quote, the backslash and the
  control characters escaped; a property whose value has no JSON text is left out of
  its object, and an element that has none is written \<^verbatim>\<open>null\<close> in its array.
\<close>

definition escape_char :: "char \<Rightarrow> string" where
  "escape_char c =
     (if c = CHR 0x22 then [CHR 0x5C, CHR 0x22]
      else if c = CHR 0x5C then [CHR 0x5C, CHR 0x5C]
      else if c = CHR 0x08 then [CHR 0x5C, CHR ''b'']
      else if c = CHR 0x0C then [CHR 0x5C, CHR ''f'']
      else if c = CHR 0x0A then [CHR 0x5C, CHR ''n'']
      else if c = CHR 0x0D then [CHR 0x5C, CHR ''r'']
      else if c = CHR 0x09 then [CHR 0x5C, CHR ''t'']
      else if of_char c < (32::nat)
        then [CHR 0x5C, CHR ''u'', CHR ''0'', CHR ''0'',
              digit_char (of_char c div 16), digit_char (of_char c mod 16)]
      else [c])"

definition quote :: "string \<Rightarrow> string" where
  "quote s = [CHR 0x22] @ concat (map escape_char s) @ [CHR 0x22]"

fun JSON_stringify :: "jsval \<Rightarrow> string option" where
  "JSON_stringify JUndefined = None"
| "JSON_stringify JNull = Some ''null''"
| "JSON_stringify (JBool b) = Some (if b then ''true'' else ''false'')"
| "JSON_stringify (JNum n) = Some (Number_toString n)"
| "JSON_stringify (JStr s) = Some (quote s)"
| "JSON_stringify (JArr vs) =
     Some (''['' @ join '','' (map (\<lambda>v.
              case JSON_stringify v of None \<Rightarrow> ''null'' | Some t \<Rightarrow> t) vs) @ '']'')"
| "JSON_stringify (JObj obj) =
     Some (''{'' @ join '','' (concat (map (\<lambda>kv.
              case JSON_stringify (snd kv) of
                None \<Rightarrow> []
              | Some t \<Rightarrow> [quote (fst kv) @ '':'' @ t]) obj)) @ ''}'')"
| "JSON_stringify (JNative name json text) = json"

subsection \<open>Reading a property\<close>

text \<open>
  The index a key names in a string or array of \<open>n\<close> elements: the key is the decimal
  form of a number below \<open>n\<close>.
\<close>

definition index_of_key :: "nat \<Rightarrow> string \<Rightarrow> nat option" where
  "index_of_key n key = find (\<lambda>i. decimal_digits i [] = key) [0..<n]"

text \<open>
  \<^verbatim>\<open>value[key]\<close>. An object gives its own property; a string and an array give their
  \<^verbatim>\<open>length\<close> and their elements; any other key is looked up in the prototype chain,
  which belongs to the runtime and not to these sources: \<open>inherited value key\<close> is what
  the chain of \<open>value\<close> holds under \<open>key\<close> (\<^verbatim>\<open>undefined\<close> when it holds nothing), and is a
  parameter of everything that reads a property. Reading a property of \<^verbatim>\<open>undefined\<close> or
  \<^verbatim>\<open>null\<close> throws; the page reads properties of truthy values and of objects only.
\<close>

fun read_member :: "(jsval \<Rightarrow> string \<Rightarrow> jsval) \<Rightarrow> jsval \<Rightarrow> string \<Rightarrow> jsval" where
  "read_member inherited (JObj obj) key =
     (case map_of obj key of Some v \<Rightarrow> v | None \<Rightarrow> inherited (JObj obj) key)"
| "read_member inherited (JArr vs) key =
     (if key = ''length'' then JNum (int (length vs))
      else case index_of_key (length vs) key of
             Some i \<Rightarrow> vs ! i
           | None \<Rightarrow> inherited (JArr vs) key)"
| "read_member inherited (JStr s) key =
     (if key = ''length'' then JNum (int (length s))
      else case index_of_key (length s) key of
             Some i \<Rightarrow> JStr [s ! i]
           | None \<Rightarrow> inherited (JStr s) key)"
| "read_member inherited JUndefined key = JUndefined"
| "read_member inherited JNull key = JUndefined"
| "read_member inherited v key = inherited v key"

text \<open>
  \<^verbatim>\<open>Object.entries\<close> of a value that passed the object test: the properties of an
  object, the indices and elements of an array.
\<close>

fun entries :: "jsval \<Rightarrow> (string \<times> jsval) list" where
  "entries (JObj obj) = obj"
| "entries (JArr vs) = zip (map (\<lambda>i. decimal_digits i []) [0..<length vs]) vs"
| "entries _ = []"


text \<open>
  \<^verbatim>\<open>Object.assign(target, source)\<close>: each own property of the source, in order, is
  assigned on the target. An existing key keeps its place, a new key goes last. The
  schemas of \<^verbatim>\<open>Patient\<close> and \<^verbatim>\<open>PatientEditRequest\<close> are in \<^verbatim>\<open>../models\<close>, which the
  routes only require; a document is taken as the plain object of its fields.
\<close>

definition Object_assign :: "jsobj \<Rightarrow> jsobj \<Rightarrow> jsobj" where
  "Object_assign target source = foldl (\<lambda>t kv. AList.update (fst kv) (snd kv) t) target source"

section \<open>The store and the admin routes\<close>

type_synonym oid = string

datatype status = PENDING | APPROVED | REJECTED

text \<open>
  A \<^verbatim>\<open>PatientEditRequest\<close> document, with the fields the routes and the page read.
  \<^verbatim>\<open>patient\<close> and \<^verbatim>\<open>hospital\<close> are references (ids).
\<close>

record edit_request =
  patient :: oid
  hospital :: oid
  requestedChanges :: jsobj
  status :: status
  createdAt :: int

text \<open>
  The two collections, each keyed by \<^verbatim>\<open>_id\<close>. \<^verbatim>\<open>findById\<close> is \<open>map_of\<close>,
  \<^verbatim>\<open>doc.save()\<close> of a document that was found is \<open>AList.update\<close> at its id.
\<close>

record store =
  patients :: "(oid \<times> jsobj) list"
  requests :: "(oid \<times> edit_request) list"

text \<open>What \<^verbatim>\<open>authMiddleware\<close> leaves on the request object.\<close>

record actor =
  userRole :: string
  userHospital :: oid

text \<open>
  A \<^verbatim>\<open>save()\<close> is a write to the database and its promise can reject; the handler's
  \<^verbatim>\<open>catch\<close> then passes the error to \<^verbatim>\<open>next\<close>. The outcome of each write of the approve
  handler is an input of the model.
\<close>

record writes =
  patient_save_ok :: bool
  request_save_ok :: bool

text \<open>
  The failures a route answers with: 403 \<^verbatim>\<open>Access denied\<close> (\<^verbatim>\<open>ensureSuperAdmin\<close>; the
  specification's \<^verbatim>\<open>ForbiddenError\<close>), 404 \<^verbatim>\<open>Request not found\<close>
  (\<^verbatim>\<open>RequestNotFoundError\<close>), 400 \<^verbatim>\<open>Request is already processed\<close>
  (\<^verbatim>\<open>AlreadyResolvedError\<close>), 404 \<^verbatim>\<open>Patient not found\<close> (\<^verbatim>\<open>RecordNotFoundError\<close>), and
  the error of a rejected write, handed to \<^verbatim>\<open>next\<close>.
\<close>

datatype error =
    AccessDenied
  | RequestNotFound
  | AlreadyProcessed
  | PatientNotFound
  | SaveFailed

definition ensureSuperAdmin :: "actor \<Rightarrow> bool" where
  "ensureSuperAdmin a = (userRole a = ''SUPER_ADMIN'')"

text \<open>
  \<^verbatim>\<open>.populate('patient')\<close>: the referenced document, or \<^verbatim>\<open>null\<close> when there is none.
\<close>

record populated_request =
  request_id :: oid
  request :: edit_request
  populated_patient :: "jsobj option"

definition populate :: "store \<Rightarrow> oid \<times> edit_request \<Rightarrow> populated_request" where
  "populate st ir =
     \<lparr>request_id = fst ir, request = snd ir,
      populated_patient = map_of (patients st) (patient (snd ir))\<rparr>"

definition find_pending :: "store \<Rightarrow> (oid \<times> edit_request) list" where
  "find_pending st = filter (\<lambda>ir. status (snd ir) = PENDING) (requests st)"

text \<open>
  \<^verbatim>\<open>GET /requests\<close>: the pending requests, populated, sorted by \<^verbatim>\<open>createdAt\<close> descending;
  the answer carries \<^verbatim>\<open>count: requests.length\<close> and the requests.
\<close>

definition get_requests :: "actor \<Rightarrow> store \<Rightarrow> (error + nat \<times> populated_request list) \<times> store" where
  "get_requests a st =
     (if \<not> ensureSuperAdmin a then (Inl AccessDenied, st)
      else
        let rs = sort_key (\<lambda>p. - createdAt (request p)) (map (populate st) (find_pending st))
        in (Inr (length rs, rs), st))"

text \<open>\<^verbatim>\<open>GET /requests/count\<close>: \<^verbatim>\<open>countDocuments({ status: 'PENDING' })\<close>.\<close>

definition get_requests_count :: "actor \<Rightarrow> store \<Rightarrow> (error + nat) \<times> store" where
  "get_requests_count a st =
     (if \<not> ensureSuperAdmin a then (Inl AccessDenied, st)
      else (Inr (length (find_pending st)), st))"

text \<open>
  \<^verbatim>\<open>POST /requests/:id/approve\<close>. The answer on success carries the patient document.
\<close>

definition approve :: "actor \<Rightarrow> writes \<Rightarrow> store \<Rightarrow> oid \<Rightarrow> (error + jsobj) \<times> store" where
  "approve a w st rid =
     (if \<not> ensureSuperAdmin a then (Inl AccessDenied, st)
      else case map_of (requests st) rid of
        None \<Rightarrow> (Inl RequestNotFound, st)
      | Some req \<Rightarrow>
          if status req \<noteq> PENDING then (Inl AlreadyProcessed, st)
          else
            (case map_of (patients st) (patient req) of
               None \<Rightarrow> (Inl PatientNotFound, st)
             | Some pat \<Rightarrow>
                 let pat' = Object_assign pat (requestedChanges req) in
                 if \<not> patient_save_ok w then (Inl SaveFailed, st)
                 else
                   let st1 = st\<lparr>patients := AList.update (patient req) pat' (patients st)\<rparr> in
                   if \<not> request_save_ok w then (Inl SaveFailed, st1)
                   else
                     (Inr pat',
                      st1\<lparr>requests :=
                        AList.update rid (req\<lparr>status := APPROVED\<rparr>) (requests st1)\<rparr>)))"

text \<open>\<^verbatim>\<open>POST /requests/:id/reject\<close>. Its one write is the request's.\<close>

definition reject :: "actor \<Rightarrow> writes \<Rightarrow> store \<Rightarrow> oid \<Rightarrow> (error + unit) \<times> store" where
  "reject a w st rid =
     (if \<not> ensureSuperAdmin a then (Inl AccessDenied, st)
      else case map_of (requests st) rid of
        None \<Rightarrow> (Inl RequestNotFound, st)
      | Some req \<Rightarrow>
          if status req \<noteq> PENDING then (Inl AlreadyProcessed, st)
          else if \<not> request_save_ok w then (Inl SaveFailed, st)
          else
            (Inr (), st\<lparr>requests := AList.update rid (req\<lparr>status := REJECTED\<rparr>) (requests st)\<rparr>))"

section \<open>The review page\<close>

text \<open>
  \<^verbatim>\<open>fetchRequests\<close> of the page: the route's requests, without those whose populated
  patient is \<^verbatim>\<open>null\<close>. When the call fails the page shows an error and keeps its list.
\<close>

definition fetchRequests :: "actor \<Rightarrow> store \<Rightarrow> error + populated_request list" where
  "fetchRequests a st =
     (case fst (get_requests a st) of
        Inl e \<Rightarrow> Inl e
      | Inr resp \<Rightarrow> Inr (filter (\<lambda>req. populated_patient req \<noteq> None) (snd resp)))"

text \<open>
  What \<^verbatim>\<open>formatChanges\<close> renders: for a nested field a block with the field's name and
  one row per sub-key (or \<^verbatim>\<open>null\<close>), for any other field one card (or \<^verbatim>\<open>null\<close>). A row
  and a card show the key, the old text and the new text. The functions take the
  runtime's \<open>inherited\<close> table, for their property reads.
\<close>

datatype sub_row = SubRow string string string

datatype element =
    NestedBlock string "sub_row option list"
  | Card string string string

definition formatSubChange ::
    "(jsval \<Rightarrow> string \<Rightarrow> jsval) \<Rightarrow> jsval \<Rightarrow> string \<times> jsval \<Rightarrow> sub_row option" where
  "formatSubChange inherited oldValue se =
     (let subKey = fst se; subNewValue = snd se;
          subOldValue =
            (if truthy oldValue then read_member inherited oldValue subKey else JStr ''N/A'')
      in if JSON_stringify subOldValue = JSON_stringify subNewValue then None
         else Some (SubRow subKey (js_String (js_or subOldValue (JStr ''N/A'')))
                      (js_String subNewValue)))"

definition formatChange ::
    "(jsval \<Rightarrow> string \<Rightarrow> jsval) \<Rightarrow> jsobj \<Rightarrow> string \<times> jsval \<Rightarrow> element option" where
  "formatChange inherited pat e =
     (let key = fst e; newValue = snd e; oldValue = read_member inherited (JObj pat) key
      in if is_object newValue
           then Some (NestedBlock key
                        (map (formatSubChange inherited oldValue) (entries newValue)))
         else if strict_eq oldValue newValue then None
         else Some (Card key (js_String (js_or oldValue (JStr ''N/A''))) (js_String newValue)))"






text \<open>
  The stored document a listed request came from, and the requests a listing is
  expected to show: pending, with a patient that exists.
\<close>

definition stored :: "populated_request \<Rightarrow> oid \<times> edit_request" where
  "stored p = (request_id p, request p)"

definition listable :: "store \<Rightarrow> oid \<times> edit_request \<Rightarrow> bool" where
  "listable st ir =
     (status (snd ir) = PENDING \<and> map_of (patients st) (patient (snd ir)) \<noteq> None)"

section \<open>Handlers in flight\<close>






section \<open>Calls one after another\<close>




section \<open>Example data\<close>

definition super_admin :: actor where
  "super_admin = \<lparr>userRole = ''SUPER_ADMIN'', userHospital = ''h0''\<rparr>"

definition hospital_admin :: actor where
  "hospital_admin = \<lparr>userRole = ''HOSPITAL_ADMIN'', userHospital = ''h1''\<rparr>"

definition writes_ok :: writes where
  "writes_ok = \<lparr>patient_save_ok = True, request_save_ok = True\<rparr>"

definition status_write_fails :: writes where
  "status_write_fails = \<lparr>patient_save_ok = True, request_save_ok = False\<rparr>"

text \<open>Alice, the record of Scenario B, owned by hospital \<^verbatim>\<open>h1\<close>.\<close>

definition alice :: jsobj where
  "alice = [(''name'', JStr ''Alice''), (''hospital'', JStr ''h1''),
            (''contact'', JObj [(''phone'', JStr ''111''), (''email'', JStr ''a@x.com'')])]"

definition contact_request :: edit_request where
  "contact_request =
     \<lparr>patient = ''p1'', hospital = ''h1'',
      requestedChanges = [(''contact'', JObj [(''phone'', JStr ''222'')])],
      status = PENDING, createdAt = 10\<rparr>"

definition orphan_request :: edit_request where
  "orphan_request =
     \<lparr>patient = ''p9'', hospital = ''h1'',
      requestedChanges = [(''name'', JStr ''Bob'')],
      status = PENDING, createdAt = 30\<rparr>"

definition owner_request :: edit_request where
  "owner_request =
     \<lparr>patient = ''p1'', hospital = ''h1'',
      requestedChanges = [(''hospital'', JStr ''h2'')],
      status = PENDING, createdAt = 20\<rparr>"

text \<open>
  Three pending requests, one of them for a record that is gone (Scenario E).
\<close>

definition example_store :: store where
  "example_store =
     \<lparr>patients = [(''p1'', alice)],
      requests = [(''r1'', contact_request), (''r2'', orphan_request), (''r3'', owner_request)]\<rparr>"

text \<open>
  Alice after request \<^verbatim>\<open>r1\<close> has been applied, the example store after \<^verbatim>\<open>r1\<close> has
  been approved, and the store in which only the record of \<^verbatim>\<open>r1\<close> has been written.
\<close>

definition alice_after_r1 :: jsobj where
  "alice_after_r1 = [(''name'', JStr ''Alice''), (''hospital'', JStr ''h1''),
                     (''contact'', JObj [(''phone'', JStr ''222'')])]"

definition approved_store :: store where
  "approved_store =
     \<lparr>patients = [(''p1'', alice_after_r1)],
      requests = [(''r1'', contact_request\<lparr>status := APPROVED\<rparr>), (''r2'', orphan_request),
                  (''r3'', owner_request)]\<rparr>"

definition half_done_store :: store where
  "half_done_store =
     \<lparr>patients = [(''p1'', alice_after_r1)],
      requests = [(''r1'', contact_request), (''r2'', orphan_request), (''r3'', owner_request)]\<rparr>"







definition no_phone :: jsobj where
  "no_phone = [(''name'', JStr ''Carol'')]"


text \<open>
  An excerpt of the built-in prototypes of a runtime, for the examples: every value
  inherits \<^verbatim>\<open>toString\<close> and \<^verbatim>\<open>constructor\<close>, both functions, and the examples read no
  other inherited key.
\<close>

fun constructor_name :: "jsval \<Rightarrow> string" where
  "constructor_name (JObj obj) = ''Object''"
| "constructor_name (JArr vs) = ''Array''"
| "constructor_name (JStr s) = ''String''"
| "constructor_name (JNum n) = ''Number''"
| "constructor_name (JBool b) = ''Boolean''"
| "constructor_name v = ''Function''"

definition builtins :: "jsval \<Rightarrow> string \<Rightarrow> jsval" where
  "builtins v key =
     (if key = ''toString''
        then JNative ''toString'' None ''function toString() { [native code] }''
      else if key = ''constructor''
        then JNative (constructor_name v) None
               (''function '' @ constructor_name v @ ''() { [native code] }'')
      else JUndefined)"

section \<open>Properties of \<open>Object_assign\<close>\<close>




section \<open>Authorization\<close>

text \<open>
  Claim C5. An actor whose role is not \<^verbatim>\<open>SUPER_ADMIN\<close> gets the 403 answer from the
  listing route (and so from the page's \<open>fetchRequests\<close>), from the count route, from
  approve and from reject, and each of them returns the store as it was.
\<close>

theorem not_elevated_forbidden:
  assumes "userRole a \<noteq> ''SUPER_ADMIN''"
  shows "get_requests a st = (Inl AccessDenied, st)
       \<and> fetchRequests a st = Inl AccessDenied
       \<and> get_requests_count a st = (Inl AccessDenied, st)
       \<and> approve a w st rid = (Inl AccessDenied, st)
       \<and> reject a w st rid = (Inl AccessDenied, st)"
  using assms
  by (simp add: get_requests_def fetchRequests_def get_requests_count_def approve_def
      reject_def ensureSuperAdmin_def)

theorem not_elevated_forbidden_witness:
  "userRole hospital_admin \<noteq> ''SUPER_ADMIN''
   \<and> get_requests hospital_admin example_store = (Inl AccessDenied, example_store)
   \<and> fetchRequests hospital_admin example_store = Inl AccessDenied
   \<and> get_requests_count hospital_admin example_store = (Inl AccessDenied, example_store)
   \<and> approve hospital_admin writes_ok example_store ''r1'' = (Inl AccessDenied, example_store)
   \<and> reject hospital_admin writes_ok example_store ''r1'' = (Inl AccessDenied, example_store)"
  using not_elevated_forbidden [of hospital_admin example_store writes_ok "''r1''"]
  by (simp add: hospital_admin_def)

section \<open>The life of a request\<close>

text \<open>
  Claim C6. When a super admin approves a pending request whose patient is not in the
  store, the answer is 404 \<^verbatim>\<open>Patient not found\<close> and the store is returned as it was:
  the request is still pending, and no request and no record has changed.
\<close>

theorem approve_missing_patient:
  assumes "userRole a = ''SUPER_ADMIN''"
    and "map_of (requests st) rid = Some req"
    and "status req = PENDING"
    and "map_of (patients st) (patient req) = None"
  shows "approve a w st rid = (Inl PatientNotFound, st)"
  using assms by (simp add: approve_def ensureSuperAdmin_def)

theorem approve_missing_patient_witness:
  "userRole super_admin = ''SUPER_ADMIN''
   \<and> map_of (requests example_store) ''r2'' = Some orphan_request
   \<and> status orphan_request = PENDING
   \<and> map_of (patients example_store) (patient orphan_request) = None
   \<and> approve super_admin writes_ok example_store ''r2'' = (Inl PatientNotFound, example_store)"
  using approve_missing_patient [of super_admin example_store "''r2''" orphan_request writes_ok]
  by (simp add: super_admin_def example_store_def orphan_request_def)







text \<open>A call that succeeds found the request pending and leaves it resolved.\<close>

lemma approve_success_resolves:
  assumes "approve a w st rid = (Inr p, st')"
  shows "\<exists>req. map_of (requests st) rid = Some req \<and> status req = PENDING
           \<and> map_of (requests st') rid = Some (req\<lparr>status := APPROVED\<rparr>)"
  using assms
  by (auto simp: approve_def Let_def update_conv' split: if_splits option.splits)

lemma reject_success_resolves:
  assumes "reject a w st rid = (Inr u, st')"
  shows "\<exists>req. map_of (requests st) rid = Some req \<and> status req = PENDING
           \<and> map_of (requests st') rid = Some (req\<lparr>status := REJECTED\<rparr>)"
  using assms
  by (auto simp: reject_def update_conv' split: if_splits option.splits)







section \<open>What approve writes\<close>








text \<open>
  Claim C4, as stated, fails. The record and the request are saved by two writes. When
  the first succeeds and the second is rejected, the handler reports the error, the
  record is the merged one and the request is still pending.
\<close>
theorem approve_not_atomic_counterexample:
  "approve super_admin status_write_fails example_store ''r1'' = (Inl SaveFailed, half_done_store)
   \<and> map_of (patients example_store) ''p1'' = Some alice
   \<and> map_of (patients half_done_store) ''p1'' = Some alice_after_r1
   \<and> alice_after_r1 \<noteq> alice
   \<and> map_of (requests half_done_store) ''r1'' = Some contact_request
   \<and> status contact_request = PENDING"
  by (simp add: approve_def ensureSuperAdmin_def super_admin_def status_write_fails_def
      example_store_def half_done_store_def alice_after_r1_def contact_request_def alice_def
      Object_assign_def Let_def)

text \<open>
  Claim C4, amended. An approve that succeeds has saved the merged record and set the
  request's status to \<^verbatim>\<open>APPROVED\<close>. An approve that fails with anything but a rejected
  write of the request (403, 404, 400, or a rejected write of the record) leaves the
  store as it was. An approve whose write of the record succeeded and whose write of
  the request is rejected leaves the merged record saved and the requests as they
  were, the request still pending.
\<close>
theorem approve_outcomes:
  assumes "approve a w st rid = (res, st')"
  shows "(\<forall>p. res = Inr p \<longrightarrow>
            (\<exists>req pat. map_of (requests st) rid = Some req \<and> status req = PENDING
               \<and> map_of (patients st) (patient req) = Some pat
               \<and> p = Object_assign pat (requestedChanges req)
               \<and> map_of (patients st') (patient req) = Some p
               \<and> map_of (requests st') rid = Some (req\<lparr>status := APPROVED\<rparr>)))
       \<and> (\<forall>e. res = Inl e \<and> \<not> (e = SaveFailed \<and> patient_save_ok w) \<longrightarrow> st' = st)
       \<and> (res = Inl SaveFailed \<and> patient_save_ok w \<longrightarrow>
            (\<exists>req pat. map_of (requests st) rid = Some req \<and> status req = PENDING
               \<and> map_of (patients st) (patient req) = Some pat
               \<and> map_of (patients st') (patient req)
                   = Some (Object_assign pat (requestedChanges req))
               \<and> requests st' = requests st))"
  using assms
  by (auto simp: approve_def ensureSuperAdmin_def Let_def update_conv'
      split: if_splits option.splits)

theorem approve_outcomes_witness:
  "approve super_admin status_write_fails example_store ''r1'' = (Inl SaveFailed, half_done_store)
   \<and> patient_save_ok status_write_fails
   \<and> (\<exists>req pat. map_of (requests example_store) ''r1'' = Some req \<and> status req = PENDING
          \<and> map_of (patients example_store) (patient req) = Some pat
          \<and> map_of (patients half_done_store) (patient req)
              = Some (Object_assign pat (requestedChanges req))
          \<and> requests half_done_store = requests example_store)
   \<and> approve super_admin writes_ok example_store ''r1'' = (Inr alice_after_r1, approved_store)
   \<and> (\<exists>req pat. map_of (requests example_store) ''r1'' = Some req \<and> status req = PENDING
          \<and> map_of (patients example_store) (patient req) = Some pat
          \<and> alice_after_r1 = Object_assign pat (requestedChanges req)
          \<and> map_of (patients approved_store) (patient req) = Some alice_after_r1
          \<and> map_of (requests approved_store) ''r1'' = Some (req\<lparr>status := APPROVED\<rparr>))
   \<and> approve super_admin writes_ok example_store ''r2'' = (Inl PatientNotFound, example_store)"
proof -
  have half: "approve super_admin status_write_fails example_store ''r1''
               = (Inl SaveFailed, half_done_store)"
    by (simp add: approve_def ensureSuperAdmin_def super_admin_def status_write_fails_def
        example_store_def half_done_store_def alice_after_r1_def contact_request_def alice_def
        Object_assign_def Let_def)
  have full: "approve super_admin writes_ok example_store ''r1''
               = (Inr alice_after_r1, approved_store)"
    by (simp add: approve_def ensureSuperAdmin_def super_admin_def writes_ok_def
        example_store_def approved_store_def alice_after_r1_def contact_request_def alice_def
        Object_assign_def Let_def)
  have none: "approve super_admin writes_ok example_store ''r2''
               = (Inl PatientNotFound, example_store)"
    by (simp add: approve_def ensureSuperAdmin_def super_admin_def example_store_def
        orphan_request_def)
  have ok: "patient_save_ok status_write_fails" by (simp add: status_write_fails_def)
  from approve_outcomes [OF half] ok
  have third: "\<exists>req pat. map_of (requests example_store) ''r1'' = Some req \<and> status req = PENDING
          \<and> map_of (patients example_store) (patient req) = Some pat
          \<and> map_of (patients half_done_store) (patient req)
              = Some (Object_assign pat (requestedChanges req))
          \<and> requests half_done_store = requests example_store"
    by blast
  from approve_outcomes [OF full]
  have first: "\<exists>req pat. map_of (requests example_store) ''r1'' = Some req \<and> status req = PENDING
          \<and> map_of (patients example_store) (patient req) = Some pat
          \<and> alice_after_r1 = Object_assign pat (requestedChanges req)
          \<and> map_of (patients approved_store) (patient req) = Some alice_after_r1
          \<and> map_of (requests approved_store) ''r1'' = Some (req\<lparr>status := APPROVED\<rparr>)"
    by blast
  from half ok third full first none show ?thesis by blast
qed

section \<open>Listing and counting\<close>

lemma stored_populate: "stored (populate st ir) = ir"
  by (simp add: stored_def populate_def)

lemma fetchRequests_elevated:
  assumes "userRole a = ''SUPER_ADMIN''"
  shows "fetchRequests a st =
           Inr (filter (\<lambda>p. populated_patient p \<noteq> None)
                  (sort_key (\<lambda>p. - createdAt (request p)) (map (populate st) (find_pending st))))"
  using assms by (simp add: fetchRequests_def get_requests_def ensureSuperAdmin_def Let_def)

lemma stored_valid_populated:
  "map stored (filter (\<lambda>p. populated_patient p \<noteq> None) (map (populate st) xs))
     = filter (\<lambda>ir. map_of (patients st) (patient (snd ir)) \<noteq> None) xs"
  by (induction xs) (simp_all add: stored_populate, simp_all add: populate_def)

lemma listing_mset:
  "mset (map stored (filter (\<lambda>p. populated_patient p \<noteq> None)
           (sort_key (\<lambda>p. - createdAt (request p)) (map (populate st) (find_pending st)))))
     = mset (filter (listable st) (requests st))"
proof -
  let ?valid = "\<lambda>p. populated_patient p \<noteq> None"
  let ?ps = "map (populate st) (find_pending st)"
  have "mset (map stored (filter ?valid (sort_key (\<lambda>p. - createdAt (request p)) ?ps)))
          = mset (map stored (filter ?valid ?ps))"
    by (simp only: mset_map mset_filter mset_sort)
  also have "\<dots> = mset (filter (\<lambda>ir. map_of (patients st) (patient (snd ir)) \<noteq> None) (find_pending st))"
    by (simp only: stored_valid_populated)
  also have "\<dots> = mset (filter (listable st) (requests st))"
    by (simp add: find_pending_def listable_def conj_commute)
  finally show ?thesis .
qed

lemma listing_sorted:
  "sorted_wrt (\<lambda>x y. createdAt (request y) \<le> createdAt (request x))
     (filter P (sort_key (\<lambda>p. - createdAt (request p)) ps))"
proof -
  have "sorted (map (\<lambda>p. - createdAt (request p))
                 (filter P (sort_key (\<lambda>p. - createdAt (request p)) ps)))"
    by (rule sorted_filter) (rule sorted_sort_key)
  then show ?thesis by (simp add: sorted_map)
qed

text \<open>
  Claim C7. For a super admin, the page's \<open>fetchRequests\<close> over the listing route
  returns exactly the stored requests that are pending and whose patient exists (the
  same requests, each as often as it is stored), ordered by \<^verbatim>\<open>createdAt\<close> descending: the
  route finds the pending requests and sorts them, the page drops those whose populated
  patient is \<^verbatim>\<open>null\<close>. In Scenario E (three pending requests, one for a record that is
  gone) the result has two entries, the newer first.
\<close>

theorem fetchRequests_pending_newest_first:
  assumes "userRole a = ''SUPER_ADMIN''"
  shows "\<exists>rs. fetchRequests a st = Inr rs
           \<and> mset (map stored rs) = mset (filter (listable st) (requests st))
           \<and> sorted_wrt (\<lambda>x y. createdAt (request y) \<le> createdAt (request x)) rs"
  using fetchRequests_elevated [OF assms, of st] listing_mset [of st] listing_sorted
  by simp

lemma fetchRequests_example:
  "fetchRequests super_admin example_store =
     Inr [\<lparr>request_id = ''r3'', request = owner_request, populated_patient = Some alice\<rparr>,
          \<lparr>request_id = ''r1'', request = contact_request, populated_patient = Some alice\<rparr>]"
  by (simp add: fetchRequests_def get_requests_def ensureSuperAdmin_def super_admin_def
      Let_def find_pending_def example_store_def populate_def owner_request_def
      orphan_request_def contact_request_def)

theorem fetchRequests_pending_newest_first_witness:
  "userRole super_admin = ''SUPER_ADMIN''
   \<and> (\<exists>rs. fetchRequests super_admin example_store = Inr rs
          \<and> mset (map stored rs) = mset (filter (listable example_store) (requests example_store))
          \<and> sorted_wrt (\<lambda>x y. createdAt (request y) \<le> createdAt (request x)) rs
          \<and> rs = [\<lparr>request_id = ''r3'', request = owner_request, populated_patient = Some alice\<rparr>,
                  \<lparr>request_id = ''r1'', request = contact_request, populated_patient = Some alice\<rparr>])"
  using fetchRequests_pending_newest_first [of super_admin example_store] fetchRequests_example
  by (auto simp: super_admin_def)

lemma count_example:
  "get_requests_count super_admin example_store = (Inr 3, example_store)"
  by (simp add: get_requests_count_def ensureSuperAdmin_def super_admin_def find_pending_def
      example_store_def owner_request_def orphan_request_def contact_request_def)

text \<open>
  Claim C8. For a super admin, the count route returns the number of stored requests
  whose status is \<^verbatim>\<open>PENDING\<close>, whether their patient exists or not. It is the \<^verbatim>\<open>count\<close>
  and the length of what the listing route returns, before the page drops the requests
  without a patient; the page's list is never longer, and there is a store in which it
  is shorter.
\<close>

theorem count_is_raw_pending:
  assumes "userRole a = ''SUPER_ADMIN''"
  shows "\<exists>n rs vs.
           get_requests_count a st = (Inr n, st)
         \<and> n = length (filter (\<lambda>ir. status (snd ir) = PENDING) (requests st))
         \<and> get_requests a st = (Inr (n, rs), st) \<and> length rs = n
         \<and> fetchRequests a st = Inr vs \<and> length vs \<le> n
         \<and> (\<exists>st0 n0 vs0. get_requests_count a st0 = (Inr n0, st0)
                \<and> fetchRequests a st0 = Inr vs0 \<and> length vs0 < n0)"
proof -
  let ?rs = "sort_key (\<lambda>p. - createdAt (request p)) (map (populate st) (find_pending st))"
  let ?vs = "filter (\<lambda>p. populated_patient p \<noteq> None) ?rs"
  have n: "length ?rs = length (find_pending st)" by simp
  have count: "get_requests_count a st = (Inr (length (find_pending st)), st)"
    using assms by (simp add: get_requests_count_def ensureSuperAdmin_def)
  have raw: "length (find_pending st)
               = length (filter (\<lambda>ir. status (snd ir) = PENDING) (requests st))"
    by (simp add: find_pending_def)
  have listing: "get_requests a st = (Inr (length (find_pending st), ?rs), st)"
    using assms by (simp add: get_requests_def ensureSuperAdmin_def Let_def)
  have page: "fetchRequests a st = Inr ?vs"
    using assms by (rule fetchRequests_elevated)
  have "length ?vs \<le> length ?rs" by (rule length_filter_le)
  then have le: "length ?vs \<le> length (find_pending st)" by (simp only: n)
  have "get_requests_count a example_store = (Inr 3, example_store)"
    using assms
    by (simp add: get_requests_count_def ensureSuperAdmin_def find_pending_def
        example_store_def owner_request_def orphan_request_def contact_request_def)
  moreover have "fetchRequests a example_store =
     Inr [\<lparr>request_id = ''r3'', request = owner_request, populated_patient = Some alice\<rparr>,
          \<lparr>request_id = ''r1'', request = contact_request, populated_patient = Some alice\<rparr>]"
    using assms
    by (simp add: fetchRequests_def get_requests_def ensureSuperAdmin_def
      Let_def find_pending_def example_store_def populate_def owner_request_def
      orphan_request_def contact_request_def)
  ultimately have more: "\<exists>st0 n0 vs0. get_requests_count a st0 = (Inr n0, st0)
                \<and> fetchRequests a st0 = Inr vs0 \<and> length vs0 < n0"
    by (intro exI [of _ example_store] exI [of _ 3]) auto
  from count raw listing n page le more show ?thesis by blast
qed

theorem count_is_raw_pending_witness:
  "userRole super_admin = ''SUPER_ADMIN''
   \<and> (\<exists>n rs vs.
           get_requests_count super_admin example_store = (Inr n, example_store)
         \<and> n = length (filter (\<lambda>ir. status (snd ir) = PENDING) (requests example_store))
         \<and> get_requests super_admin example_store = (Inr (n, rs), example_store) \<and> length rs = n
         \<and> fetchRequests super_admin example_store = Inr vs \<and> length vs \<le> n
         \<and> n = 3 \<and> length vs = 2)
   \<and> (\<exists>st0 n0 vs0. get_requests_count super_admin st0 = (Inr n0, st0)
          \<and> fetchRequests super_admin st0 = Inr vs0 \<and> length vs0 < n0)"
  using count_is_raw_pending [of super_admin example_store] count_example fetchRequests_example
  by (auto simp: super_admin_def)

section \<open>The rendered diff\<close>











text \<open>
  When the field's current value is missing, a proposed sub-value is compared with the
  placeholder \<^verbatim>\<open>'N/A'\<close>: a proposed \<^verbatim>\<open>"N/A"\<close> gets no row.
\<close>

lemma sentinel_example:
  "read_member builtins (JObj no_phone) ''contact'' = JUndefined
   \<and> formatChange builtins no_phone (''contact'', JObj [(''phone'', JStr ''N/A'')])
       = Some (NestedBlock ''contact'' [None])"
  by (simp add: no_phone_def formatChange_def formatSubChange_def Let_def builtins_def)

text \<open>
  A property read sees more than the record's own fields: the \<^verbatim>\<open>length\<close> of a string,
  in any runtime, and an inherited function under a key the record does not hold.
\<close>

lemma string_length_example:
  "formatChange inh [(''name'', JStr ''Alice'')] (''name'', JObj [(''length'', JNum 5)])
     = Some (NestedBlock ''name'' [None])"
  by (simp add: formatChange_def formatSubChange_def Let_def)

lemma inherited_key_example:
  "map_of no_phone ''toString'' = None
   \<and> formatChange builtins no_phone (''toString'', JStr ''x'')
       = Some (Card ''toString'' ''function toString() { [native code] }'' ''x'')"
  by (simp add: no_phone_def formatChange_def Let_def builtins_def js_or_def)







end
